theory Spec2Isabelle
  imports Complex_Main "HOL-Library.Word" "HOL-Library.Signed_Division"
begin

unbundle bit_operations_syntax

section \<open>Conventions of the embedding\<close>

text \<open>
  The development embeds the Go package \<^verbatim>\<open>captcha\<close> (files \<^verbatim>\<open>captcha.go\<close>, \<^verbatim>\<open>option.go\<close> and
  the helper file that holds \<^verbatim>\<open>randomString\<close>, \<^verbatim>\<open>pixelBounds\<close>, \<^verbatim>\<open>randomNearColor\<close>,
  \<^verbatim>\<open>lerp\<close>, \<^verbatim>\<open>abs\<close> and \<^verbatim>\<open>clamp\<close>).

  \<^item> Go's \<^verbatim>\<open>int\<close> is modelled by \<open>int\<close>. Coordinates, counts and lengths of this package
    are bounded by image sizes and string lengths that fit in memory, far from \<open>2 ^ 63\<close>, so
    the wrap-around of the 64-bit type is not written out. \<^verbatim>\<open>uint8\<close> and \<^verbatim>\<open>uint32\<close>, where the
    wrap-around decides the result, are \<open>8 word\<close> and \<open>32 word\<close>. Go's \<^verbatim>\<open>/\<close> on \<^verbatim>\<open>int\<close>
    truncates towards zero: it is \<open>sdiv\<close>.
  \<^item> \<^verbatim>\<open>float64\<close> is modelled by \<open>real\<close>: comparisons of finite values are exact, the rounding
    of the arithmetic is not modelled, and NaN and the infinities are not values of the model.
    The conversion \<^verbatim>\<open>int(f)\<close> truncates towards zero (\<open>float_to_int\<close>).
  \<^item> A Go \<^verbatim>\<open>string\<close> is a sequence of bytes and \<^verbatim>\<open>len\<close> and indexing count bytes: it is
    \<open>string\<close>, whose characters are bytes.
  \<^item> A panic is the value \<open>None\<close>.
  \<^item> The package-level random source \<^verbatim>\<open>math/rand/v2\<close> is an explicit argument: the stream of
    raw values the generator will produce, consumed one value per call.
\<close>

section \<open>The random source\<close>

type_synonym rand = "nat \<Rightarrow> nat"

definition rand_next :: "rand \<Rightarrow> rand" where
  "rand_next g = (\<lambda>i. g (Suc i))"

text \<open>\<^verbatim>\<open>rand.IntN(n)\<close>: panics when \<open>n \<le> 0\<close>, otherwise a value of \<open>[0, n)\<close>. Every value of
  the range is returned for some source (the raw value itself, when it is below \<open>n\<close>).\<close>

definition IntN :: "int \<Rightarrow> rand \<Rightarrow> (int \<times> rand) option" where
  "IntN n g = (if n \<le> 0 then None else Some (int (g 0) mod n, rand_next g))"

text \<open>\<^verbatim>\<open>rand.Float64()\<close>: a value of \<open>[0, 1)\<close> with 53 random bits.\<close>

definition Float64 :: "rand \<Rightarrow> real \<times> rand" where
  "Float64 g = (real (g 0 mod 2 ^ 53) / 2 ^ 53, rand_next g)"

definition float_to_int :: "real \<Rightarrow> int" where
  "float_to_int f = (if 0 \<le> f then \<lfloor>f\<rfloor> else \<lceil>f\<rceil>)"

section \<open>Colors, rectangles and images (packages \<^verbatim>\<open>image\<close> and \<^verbatim>\<open>image/color\<close>)\<close>

record RGBA =
  rgba_R :: "8 word"
  rgba_G :: "8 word"
  rgba_B :: "8 word"
  rgba_A :: "8 word"

definition transparent :: RGBA where
  "transparent = \<lparr>rgba_R = 0, rgba_G = 0, rgba_B = 0, rgba_A = 0\<rparr>"

text \<open>The method \<^verbatim>\<open>RGBA()\<close> of \<^verbatim>\<open>color.RGBA\<close>: every 8-bit channel \<open>v\<close> is widened to the
  16-bit value \<open>v | v << 8\<close>, held in a \<^verbatim>\<open>uint32\<close>. Colors of the configuration are taken to
  be \<^verbatim>\<open>color.RGBA\<close> values, as the defaults of \<^verbatim>\<open>New\<close> are.\<close>

definition widen :: "8 word \<Rightarrow> 32 word" where
  "widen v = (ucast v) OR (push_bit 8 (ucast v))"

definition color_RGBA :: "RGBA \<Rightarrow> 32 word \<times> 32 word \<times> 32 word \<times> 32 word" where
  "color_RGBA c = (widen (rgba_R c), widen (rgba_G c), widen (rgba_B c), widen (rgba_A c))"

type_synonym point = "int \<times> int"

record rectangle =
  rect_min :: point
  rect_max :: point

text \<open>\<^verbatim>\<open>image.Rect\<close> swaps the coordinates where needed, so that the result is well formed.\<close>

definition Rect :: "int \<Rightarrow> int \<Rightarrow> int \<Rightarrow> int \<Rightarrow> rectangle" where
  "Rect x0 y0 x1 y1 =
     (let (x0, x1) = (if x0 > x1 then (x1, x0) else (x0, x1));
          (y0, y1) = (if y0 > y1 then (y1, y0) else (y0, y1))
      in \<lparr>rect_min = (x0, y0), rect_max = (x1, y1)\<rparr>)"

definition Dx :: "rectangle \<Rightarrow> int" where
  "Dx r = fst (rect_max r) - fst (rect_min r)"

definition Dy :: "rectangle \<Rightarrow> int" where
  "Dy r = snd (rect_max r) - snd (rect_min r)"

text \<open>\<^verbatim>\<open>Point.In\<close>: a rectangle contains its minimum corner and excludes its maximum corner.\<close>

definition point_In :: "point \<Rightarrow> rectangle \<Rightarrow> bool" where
  "point_In p r =
     (fst (rect_min r) \<le> fst p \<and> fst p < fst (rect_max r) \<and>
      snd (rect_min r) \<le> snd p \<and> snd p < snd (rect_max r))"

text \<open>An \<^verbatim>\<open>*image.RGBA\<close>: its bounds and its pixels. \<^verbatim>\<open>Set\<close> ignores a point outside the
  bounds; \<^verbatim>\<open>RGBAAt\<close> (and \<^verbatim>\<open>At\<close>) read the zero color there.\<close>

record image =
  img_Rect :: rectangle
  img_pix :: "point \<Rightarrow> RGBA"

definition NewRGBA :: "rectangle \<Rightarrow> image" where
  "NewRGBA r = \<lparr>img_Rect = r, img_pix = (\<lambda>p. transparent)\<rparr>"

definition img_Set :: "image \<Rightarrow> point \<Rightarrow> RGBA \<Rightarrow> image" where
  "img_Set im p c =
     (if point_In p (img_Rect im) then im\<lparr>img_pix := (img_pix im)(p := c)\<rparr> else im)"

definition RGBAAt :: "image \<Rightarrow> point \<Rightarrow> RGBA" where
  "RGBAAt im p = (if point_In p (img_Rect im) then img_pix im p else transparent)"

section \<open>Helpers of the package\<close>

definition lerp :: "real \<Rightarrow> real \<Rightarrow> real \<Rightarrow> real" where
  "lerp a b t = a + (b - a) * t"

definition abs_int :: "int \<Rightarrow> int" where
  "abs_int x = (if x < 0 then - x else x)"

definition clamp :: "8 word \<Rightarrow> 8 word \<Rightarrow> 8 word \<Rightarrow> 8 word" where
  "clamp v lo hi = (if v < lo then lo else if v > hi then hi else v)"

text \<open>\<^verbatim>\<open>randomNearColor\<close>: three draws \<^verbatim>\<open>rand.IntN(50) - 25\<close>, each converted to \<^verbatim>\<open>uint8\<close> and
  added to the 8-bit channel before \<^verbatim>\<open>clamp\<close> sees the sum.\<close>

definition randomNearColor :: "RGBA \<Rightarrow> rand \<Rightarrow> (RGBA \<times> rand) option" where
  "randomNearColor base g0 =
     (case color_RGBA base of (r, g, b, a) \<Rightarrow>
      (case IntN 50 g0 of None \<Rightarrow> None | Some (d1, g1) \<Rightarrow>
      (case IntN 50 g1 of None \<Rightarrow> None | Some (d2, g2) \<Rightarrow>
      (case IntN 50 g2 of None \<Rightarrow> None | Some (d3, g3) \<Rightarrow>
        (let rOffset = d1 - 25; gOffset = d2 - 25; bOffset = d3 - 25 in
         Some (\<lparr>rgba_R = clamp (ucast (drop_bit 8 r) + word_of_int rOffset) 0 255,
                 rgba_G = clamp (ucast (drop_bit 8 g) + word_of_int gOffset) 0 255,
                 rgba_B = clamp (ucast (drop_bit 8 b) + word_of_int bOffset) 0 255,
                 rgba_A = ucast (drop_bit 8 a)\<rparr>, g3))))))"

section \<open>External collaborators\<close>

text \<open>
  The font engine (\<^verbatim>\<open>golang.org/x/image/font\<close>), the compositing and resampling routines
  (\<^verbatim>\<open>golang.org/x/image/draw\<close>), the file system and the decoding of a string into runes are
  not part of the package. They are parameters of the model.

  A \<open>font_face\<close> is what the package asks of a \<^verbatim>\<open>font.Face\<close>: the measured width of a string
  and the height, ascent and descent of the face (each already rounded up with \<^verbatim>\<open>Ceil\<close>), and
  \<^verbatim>\<open>Drawer.DrawString\<close> with a uniform source color and an integer pen position.
\<close>

record font_face =
  face_MeasureString :: "string \<Rightarrow> int"
  face_Height :: int
  face_Ascent :: int
  face_Descent :: int
  face_DrawString :: "image \<Rightarrow> RGBA \<Rightarrow> point \<Rightarrow> string \<Rightarrow> image"

datatype draw_Op = Over | Src

datatype draw_source = Uniform RGBA | Picture image

text \<open>
  \<open>lib_Draw dst r src sp op\<close> is \<^verbatim>\<open>draw.Draw\<close>, \<open>lib_Scale dst dr src sr op\<close> is
  \<^verbatim>\<open>draw.CatmullRom.Scale\<close> and \<open>lib_Transform dst m src sr op\<close> is
  \<^verbatim>\<open>draw.CatmullRom.Transform\<close> with the affine matrix \<open>m\<close>; each returns the destination
  after the call. \<open>lib_loadFace path size\<close> is \<^verbatim>\<open>os.ReadFile\<close>, \<^verbatim>\<open>opentype.Parse\<close> and
  \<^verbatim>\<open>opentype.NewFace\<close> in sequence, with the error of the first that fails.
  \<open>lib_runes s\<close> lists, for the runes that \<^verbatim>\<open>range s\<close> yields, the strings \<^verbatim>\<open>string(char)\<close>.
\<close>

record lib =
  lib_Draw :: "image \<Rightarrow> rectangle \<Rightarrow> draw_source \<Rightarrow> point \<Rightarrow> draw_Op \<Rightarrow> image"
  lib_Scale :: "image \<Rightarrow> rectangle \<Rightarrow> image \<Rightarrow> rectangle \<Rightarrow> draw_Op \<Rightarrow> image"
  lib_Transform ::
    "image \<Rightarrow> real \<times> real \<times> real \<times> real \<times> real \<times> real \<Rightarrow> image \<Rightarrow> rectangle \<Rightarrow> draw_Op \<Rightarrow> image"
  lib_loadFace :: "string \<Rightarrow> real \<Rightarrow> string + font_face"
  lib_runes :: "string \<Rightarrow> string list"

section \<open>The configuration: \<^verbatim>\<open>Captcha\<close>, \<^verbatim>\<open>Option\<close> and \<^verbatim>\<open>New\<close>\<close>

record Captcha =
  width :: int
  height :: int
  charSet :: string
  minLength :: int
  maxLength :: int
  fontPath :: string
  fontSize :: real
  foreground :: RGBA
  background :: RGBA
  minSpacing :: real
  maxSpacing :: real
  minRotation :: real
  maxRotation :: real
  minScale :: real
  maxScale :: real
  minDistortion :: real
  maxDistortion :: real
  minLines :: int
  maxLines :: int
  noiseLevel :: real
  fontFace :: "font_face option"

text \<open>An \<^verbatim>\<open>Option\<close> is a function on the \<^verbatim>\<open>Captcha\<close> under construction. The fields are not
  exported, so the options that change a field are the twelve constructors of \<^verbatim>\<open>option.go\<close>.\<close>

datatype captcha_Option =
    WithSize int int
  | WithCharSet string
  | WithLength int int
  | WithFont string real
  | WithBackground RGBA
  | WithForeground RGBA
  | WithSpacing real real
  | WithRotation real real
  | WithScale real real
  | WithDistortion real real
  | WithLines int int
  | WithNoise real

fun apply_Option :: "captcha_Option \<Rightarrow> Captcha \<Rightarrow> Captcha" where
  "apply_Option (WithSize w h) c = c\<lparr>width := w, height := h\<rparr>"
| "apply_Option (WithCharSet cs) c = c\<lparr>charSet := cs\<rparr>"
| "apply_Option (WithLength lo hi) c = c\<lparr>minLength := lo, maxLength := hi\<rparr>"
| "apply_Option (WithFont path sz) c = c\<lparr>fontPath := path, fontSize := sz\<rparr>"
| "apply_Option (WithBackground col) c = c\<lparr>background := col\<rparr>"
| "apply_Option (WithForeground col) c = c\<lparr>foreground := col\<rparr>"
| "apply_Option (WithSpacing lo hi) c = c\<lparr>minSpacing := lo, maxSpacing := hi\<rparr>"
| "apply_Option (WithRotation lo hi) c = c\<lparr>minRotation := lo, maxRotation := hi\<rparr>"
| "apply_Option (WithScale lo hi) c = c\<lparr>minScale := lo, maxScale := hi\<rparr>"
| "apply_Option (WithDistortion lo hi) c = c\<lparr>minDistortion := lo, maxDistortion := hi\<rparr>"
| "apply_Option (WithLines lo hi) c = c\<lparr>minLines := lo, maxLines := hi\<rparr>"
| "apply_Option (WithNoise level) c = c\<lparr>noiseLevel := level\<rparr>"

definition AlphaNumericWithoutConfusion :: string where
  "AlphaNumericWithoutConfusion = ''ABCDEFGHKLMNPQRSTUVWXYZabcdefghkmnpqsuvwxyz23456789''"

definition New_defaults :: Captcha where
  "New_defaults =
     \<lparr>width = 120, height = 50, charSet = AlphaNumericWithoutConfusion,
      minLength = 4, maxLength = 4, fontPath = [], fontSize = 36,
      foreground = \<lparr>rgba_R = 0, rgba_G = 0, rgba_B = 0, rgba_A = 255\<rparr>,
      background = \<lparr>rgba_R = 255, rgba_G = 255, rgba_B = 255, rgba_A = 255\<rparr>,
      minSpacing = 1, maxSpacing = 1, minRotation = 0, maxRotation = 0,
      minScale = 1, maxScale = 1, minDistortion = 0, maxDistortion = 0,
      minLines = 3, maxLines = 7, noiseLevel = 1 / 10, fontFace = None\<rparr>"

text \<open>The \<^verbatim>\<open>switch\<close> of \<^verbatim>\<open>New\<close>: the message of the first case that holds, in the order of
  the source, or \<open>None\<close> when \<^verbatim>\<open>err\<close> stays \<^verbatim>\<open>nil\<close>.\<close>

definition validate :: "Captcha \<Rightarrow> string option" where
  "validate c =
    (if width c \<le> 0 \<or> height c \<le> 0 then
       Some ''width and height must be greater than 0''
     else if charSet c = [] then
       Some ''char set is required''
     else if fontPath c = [] then
       Some ''font path is required''
     else if fontSize c \<le> 0 then
       Some ''font size must be greater than 0''
     else if minLength c < 0 \<or> maxLength c < 0 \<or> minLength c > maxLength c then
       Some ''min length must be greater than 0 and max length must be greater than min length''
     else if minSpacing c < 0 \<or> maxSpacing c < 0 \<or> minSpacing c > maxSpacing c then
       Some ''min spacing must be greater than 0 and max spacing must be greater than min spacing''
     else if minRotation c < - 180 \<or> maxRotation c > 180 \<or> minRotation c > maxRotation c then
       Some ''min rotation must be between -180 and 180 and max rotation must be greater than min rotation''
     else if minScale c < 0 \<or> maxScale c < 0 \<or> minScale c > maxScale c then
       Some ''min scale must be greater than 0 and max scale must be greater than min scale''
     else if minDistortion c < 0 \<or> maxDistortion c < 0 \<or> minDistortion c > maxDistortion c then
       Some ''min distortionmust be greater than 0 and max distortion must be greater than min distortion''
     else if minLines c < 0 \<or> maxLines c < 0 \<or> minLines c > maxLines c then
       Some ''min lines must be greater than 0 and max lines must be greater than min lines''
     else if noiseLevel c < 0 \<or> noiseLevel c > 1 then
       Some ''noise level must be between 0 and 1''
     else None)"

text \<open>The loop \<^verbatim>\<open>for _, opt := range opts { opt(c) }\<close> over the defaults.\<close>

definition apply_Options :: "captcha_Option list \<Rightarrow> Captcha" where
  "apply_Options opts = foldl (\<lambda>c opt. apply_Option opt c) New_defaults opts"

definition New :: "lib \<Rightarrow> captcha_Option list \<Rightarrow> string + Captcha" where
  "New l opts =
     (let c = apply_Options opts in
      case validate c of
        Some err \<Rightarrow> Inl err
      | None \<Rightarrow>
          (case lib_loadFace l (fontPath c) (fontSize c) of
             Inl err \<Rightarrow> Inl err
           | Inr face \<Rightarrow> Inr (c\<lparr>fontFace := Some face\<rparr>)))"





section \<open>The code string\<close>

text \<open>The loop of \<^verbatim>\<open>randomString\<close> fills \<^verbatim>\<open>b[0]\<close>, \<^verbatim>\<open>b[1]\<close>, ... in turn, each with
  \<^verbatim>\<open>set[rand.IntN(len(set))]\<close>; \<^verbatim>\<open>make\<close> panics on a negative length.\<close>

fun randomString_loop :: "nat \<Rightarrow> string \<Rightarrow> rand \<Rightarrow> (string \<times> rand) option" where
  "randomString_loop 0 cs g = Some ([], g)"
| "randomString_loop (Suc n) cs g =
     (case IntN (int (length cs)) g of
        None \<Rightarrow> None
      | Some (k, g1) \<Rightarrow>
          (case randomString_loop n cs g1 of
             None \<Rightarrow> None
           | Some (b, g2) \<Rightarrow> Some (cs ! nat k # b, g2)))"

definition randomString :: "int \<Rightarrow> string \<Rightarrow> rand \<Rightarrow> (string \<times> rand) option" where
  "randomString len cs g = (if len < 0 then None else randomString_loop (nat len) cs g)"

definition Captcha_randomString :: "Captcha \<Rightarrow> rand \<Rightarrow> (string \<times> rand) option" where
  "Captcha_randomString c g =
     (if minLength c = maxLength c then randomString (minLength c) (charSet c) g
      else
        (case IntN (maxLength c - minLength c + 1) g of
           None \<Rightarrow> None
         | Some (r, g1) \<Rightarrow> randomString (r + minLength c) (charSet c) g1))"

section \<open>Bounding box\<close>

text \<open>The body of the inner loop of \<^verbatim>\<open>pixelBounds\<close> at the pixel \<open>(x, y)\<close>, on the four running
  values \<open>(minX, minY, maxX, maxY)\<close>.\<close>

definition pixelBounds_pixel ::
  "image \<Rightarrow> int \<Rightarrow> int \<times> int \<times> int \<times> int \<Rightarrow> int \<Rightarrow> int \<times> int \<times> int \<times> int" where
  "pixelBounds_pixel src y acc x =
     (case acc of (minX, minY, maxX, maxY) \<Rightarrow>
        if rgba_A (RGBAAt src (x, y)) > 0 then
          (if x < minX then x else minX,
           if y < minY then y else minY,
           if x > maxX then x else maxX,
           if y > maxY then y else maxY)
        else acc)"

definition pixelBounds :: "image \<Rightarrow> rectangle" where
  "pixelBounds src =
     (let bounds = img_Rect src;
          x0 = fst (rect_min bounds); y0 = snd (rect_min bounds);
          x1 = fst (rect_max bounds); y1 = snd (rect_max bounds)
      in case foldl (\<lambda>acc y. foldl (pixelBounds_pixel src y) acc [x0..x1 - 1])
                (x1, y1, x0, y0) [y0..y1 - 1] of
           (minX, minY, maxX, maxY) \<Rightarrow> Rect minX minY maxX maxY)"

section \<open>Glyph transforms\<close>

definition scaleChar :: "lib \<Rightarrow> Captcha \<Rightarrow> image \<Rightarrow> rand \<Rightarrow> image \<times> rand" where
  "scaleChar l c src g =
     (if minScale c = maxScale c \<and> minScale c = 1 then (src, g)
      else
        (case (if minScale c = maxScale c then ((minScale c, minScale c), g)
               else (case Float64 g of (f1, g1) \<Rightarrow>
                     (case Float64 g1 of (f2, g2) \<Rightarrow>
                        ((f1 * (maxScale c - minScale c) + minScale c,
                          f2 * (maxScale c - minScale c) + minScale c), g2)))) of
           ((scaleX, scaleY), g') \<Rightarrow>
             (let newW = float_to_int (real_of_int (Dx (img_Rect src)) * scaleX);
                  newH = float_to_int (real_of_int (Dy (img_Rect src)) * scaleY);
                  dst = NewRGBA (Rect 0 0 newW newH)
              in (lib_Scale l dst (img_Rect dst) src (img_Rect src) Over, g'))))"

text \<open>The body of the inner loop of \<^verbatim>\<open>distortChar\<close> at the destination pixel \<open>(x, y)\<close>, and the
  two nested loops (\<^verbatim>\<open>for y := range h\<close>, \<^verbatim>\<open>for x := range w\<close>) over a fresh destination.\<close>

definition distort_pixel ::
  "image \<Rightarrow> real \<Rightarrow> int \<Rightarrow> int \<Rightarrow> real \<Rightarrow> int \<Rightarrow> image \<Rightarrow> int \<Rightarrow> image" where
  "distort_pixel src amplitude w h period y dst x =
     (let xOfs = amplitude * sin (2 * pi * real_of_int y / period);
          yOfs = amplitude * cos (2 * pi * real_of_int x / period);
          nx = x + float_to_int xOfs;
          ny = y + float_to_int yOfs
      in if nx \<ge> 0 \<and> nx < w \<and> ny \<ge> 0 \<and> ny < h
         then img_Set dst (x, y) (RGBAAt src (nx, ny)) else dst)"

definition distort :: "image \<Rightarrow> real \<Rightarrow> image" where
  "distort src amplitude =
     (let w = Dx (img_Rect src); h = Dy (img_Rect src);
          dst = NewRGBA (img_Rect src);
          period = real_of_int h / 2
      in foldl (\<lambda>dst y. foldl (distort_pixel src amplitude w h period y) dst [0..w - 1])
           dst [0..h - 1])"

definition distortChar :: "Captcha \<Rightarrow> image \<Rightarrow> rand \<Rightarrow> image \<times> rand" where
  "distortChar c src g =
     (if minDistortion c = maxDistortion c \<and> minDistortion c = 0 then (src, g)
      else
        (case (if minDistortion c = maxDistortion c then (minDistortion c, g)
               else (case Float64 g of (f, g1) \<Rightarrow>
                       (f * (maxDistortion c - minDistortion c) + minDistortion c, g1))) of
           (amplitude, g') \<Rightarrow> (distort src amplitude, g')))"

definition rotateChar :: "lib \<Rightarrow> Captcha \<Rightarrow> image \<Rightarrow> rand \<Rightarrow> image \<times> rand" where
  "rotateChar l c src g =
     (if minRotation c = maxRotation c \<and> minRotation c = 0 then (src, g)
      else
        (case (if minRotation c = maxRotation c then (minRotation c, g)
               else (case Float64 g of (f, g1) \<Rightarrow>
                       (f * (maxRotation c - minRotation c) + minRotation c, g1))) of
           (rotation, g') \<Rightarrow>
             (let srcBounds = img_Rect src;
                  srcW = Dx srcBounds; srcH = Dy srcBounds;
                  sn = sin (pi * rotation / 180); cs = cos (pi * rotation / 180);
                  dstW = float_to_int \<bar>real_of_int srcW * cs + \<bar>real_of_int srcW * sn\<bar>\<bar>;
                  dstH = float_to_int \<bar>real_of_int srcH * cs + \<bar>real_of_int srcH * sn\<bar>\<bar>;
                  dst = NewRGBA (Rect 0 0 dstW dstH);
                  srcCx = real_of_int srcW / 2; srcCy = real_of_int dstH / 2;
                  dstCx = real_of_int dstW / 2; dstCy = real_of_int dstH / 2;
                  m = (cs, - sn, dstCx - srcCx * cs + srcCy * sn,
                       sn, cs, dstCy - srcCx * sn - srcCy * cs)
              in (lib_Transform l dst m src srcBounds Over, g'))))"

section \<open>Glyphs and the string canvas\<close>

text \<open>A method called on a \<^verbatim>\<open>Captcha\<close> whose \<^verbatim>\<open>fontFace\<close> is \<^verbatim>\<open>nil\<close> panics when it reaches the
  face.\<close>

definition drawChar :: "lib \<Rightarrow> Captcha \<Rightarrow> string \<Rightarrow> rand \<Rightarrow> (image \<times> rand) option" where
  "drawChar l c char g =
     (case fontFace c of
        None \<Rightarrow> None
      | Some face \<Rightarrow>
          (let charWith = face_MeasureString face char;
               ascent = face_Ascent face;
               descent = face_Descent face;
               charHeight = ascent + descent;
               size = float_to_int (max (real_of_int charWith) (real_of_int charHeight));
               canvas = NewRGBA (Rect 0 0 size size);
               canvas = face_DrawString face canvas (foreground c)
                          (size sdiv 2 - charWith sdiv 2, size sdiv 2 + descent) char
           in case scaleChar l c canvas g of (canvas, g1) \<Rightarrow>
              (case distortChar c canvas g1 of (canvas, g2) \<Rightarrow>
              (case rotateChar l c canvas g2 of (canvas, g3) \<Rightarrow>
                 (let bounds = pixelBounds canvas;
                      dst = NewRGBA (Rect 0 0 (Dx bounds) (Dy bounds))
                  in Some (lib_Draw l dst (img_Rect dst) (Picture canvas) (rect_min bounds) Over,
                           g3))))))"

fun drawString_loop ::
  "lib \<Rightarrow> Captcha \<Rightarrow> int \<Rightarrow> string list \<Rightarrow> image \<Rightarrow> int \<Rightarrow> rand \<Rightarrow> (image \<times> rand) option" where
  "drawString_loop l c y [] canvas x g = Some (canvas, g)"
| "drawString_loop l c y (char # rest) canvas x g =
     (case drawChar l c char g of
        None \<Rightarrow> None
      | Some (charImg, g1) \<Rightarrow>
          (let charBounds = img_Rect charImg in
           case IntN (Dy charBounds sdiv 4) g1 of
             None \<Rightarrow> None
           | Some (r, g2) \<Rightarrow>
               (let yOfs = r - Dy charBounds sdiv 8;
                    startRect = Rect x (y + yOfs) (Dx (img_Rect canvas)) (Dy (img_Rect canvas));
                    canvas1 = lib_Draw l canvas startRect (Picture charImg) (0, 0) Over
                in case (if minSpacing c = maxSpacing c then (minSpacing c, g2)
                         else (case Float64 g2 of (f, g3) \<Rightarrow>
                                 (f * (maxSpacing c - minSpacing c) + minSpacing c, g3))) of
                     (spacing, g3) \<Rightarrow>
                       drawString_loop l c y rest canvas1
                         (x + float_to_int (real_of_int (Dx charBounds) * spacing)) g3)))"

definition drawString :: "lib \<Rightarrow> Captcha \<Rightarrow> string \<Rightarrow> rand \<Rightarrow> (image \<times> rand) option" where
  "drawString l c code g =
     (case fontFace c of
        None \<Rightarrow> None
      | Some face \<Rightarrow>
          (let w = face_MeasureString face code * float_to_int (maxSpacing c * maxScale c) * 2;
               h = face_Height face * float_to_int (maxScale c) * 2;
               canvas = NewRGBA (Rect 0 0 w h)
           in case drawString_loop l c (h sdiv 3) (lib_runes l code) canvas 0 g of
                None \<Rightarrow> None
              | Some (canvas, g1) \<Rightarrow>
                  (let bounds = pixelBounds canvas;
                       dst = NewRGBA (Rect 0 0 (Dx bounds) (Dy bounds))
                   in Some (lib_Draw l dst (img_Rect dst) (Picture canvas) (rect_min bounds) Over,
                            g1))))"

section \<open>Noise and line artifacts\<close>

text \<open>\<^verbatim>\<open>drawNoise\<close> is the one method that assigns to a field of its receiver, so the model
  returns the receiver after the call next to the result.\<close>

fun drawNoise_loop ::
  "nat \<Rightarrow> Captcha \<Rightarrow> image \<Rightarrow> image \<Rightarrow> rand \<Rightarrow> (image \<times> rand) option" where
  "drawNoise_loop 0 c src dst g = Some (dst, g)"
| "drawNoise_loop (Suc n) c src dst g =
     (case IntN (Dx (img_Rect src)) g of
        None \<Rightarrow> None
      | Some (x, g1) \<Rightarrow>
          (case IntN (Dy (img_Rect src)) g1 of
             None \<Rightarrow> None
           | Some (y, g2) \<Rightarrow> drawNoise_loop n c src (img_Set dst (x, y) (foreground c)) g2))"

definition drawNoise ::
  "lib \<Rightarrow> Captcha \<Rightarrow> image \<Rightarrow> rand \<Rightarrow> Captcha \<times> (image \<times> rand) option" where
  "drawNoise l c src g =
     (if noiseLevel c = 0 then (c, Some (src, g))
      else
        (let c = (if noiseLevel c > 1 then c\<lparr>noiseLevel := 1\<rparr> else c);
             noiseCnt = float_to_int
               (real_of_int (Dx (img_Rect src) * Dy (img_Rect src)) * noiseLevel c);
             dst = NewRGBA (img_Rect src);
             dst = lib_Draw l dst (img_Rect dst) (Picture src) (0, 0) Src
         in (c, drawNoise_loop (nat noiseCnt) c src dst g)))"

text \<open>The loop of \<^verbatim>\<open>drawStraightLine\<close> has no bound of its own (\<^verbatim>\<open>for { ... }\<close>); a run
  that never reaches \<^verbatim>\<open>break\<close> is the value \<open>None\<close>. The arguments are the image, the
  color, the target \<open>(x2, y2)\<close>, the constants \<open>dx\<close>, \<open>dy\<close>, \<open>sx\<close>, \<open>sy\<close> and the three
  variables the loop updates: \<open>x1\<close>, \<open>y1\<close> and \<open>err\<close>. Both tests read \<open>err2\<close>, computed
  before either update, so the two guarded updates of \<open>err\<close> add up.\<close>

partial_function (option) drawStraightLine_loop ::
  "image \<Rightarrow> RGBA \<Rightarrow> int \<Rightarrow> int \<Rightarrow> int \<Rightarrow> int \<Rightarrow> int \<Rightarrow> int \<Rightarrow> int \<Rightarrow> int \<Rightarrow> int \<Rightarrow> image option" where
  "drawStraightLine_loop img lineColor x2 y2 dx dy sx sy x1 y1 err =
     (if x1 = x2 \<and> y1 = y2 then Some (img_Set img (x1, y1) lineColor)
      else
        (let err2 = 2 * err in
         drawStraightLine_loop (img_Set img (x1, y1) lineColor) lineColor x2 y2 dx dy sx sy
           (if err2 > - dy then x1 + sx else x1)
           (if err2 < dx then y1 + sy else y1)
           ((if err2 > - dy then err - dy else err) + (if err2 < dx then dx else 0))))"

text \<open>\<^verbatim>\<open>drawStraightLine\<close> from the line \<^verbatim>\<open>dx := abs(x2 - x1)\<close> on, for given end points and
  color.\<close>

definition drawStraightLine_between ::
  "image \<Rightarrow> RGBA \<Rightarrow> int \<Rightarrow> int \<Rightarrow> int \<Rightarrow> int \<Rightarrow> image option" where
  "drawStraightLine_between img lineColor x1 y1 x2 y2 =
     (let dx = abs_int (x2 - x1);
          dy = abs_int (y2 - y1);
          sx = (if x1 < x2 then 1 else - 1);
          sy = (if y1 < y2 then 1 else - 1);
          err = dx - dy
      in drawStraightLine_loop img lineColor x2 y2 dx dy sx sy x1 y1 err)"

definition drawStraightLine :: "Captcha \<Rightarrow> image \<Rightarrow> rand \<Rightarrow> (image \<times> rand) option" where
  "drawStraightLine c img g =
     (case IntN (Dx (img_Rect img)) g of None \<Rightarrow> None | Some (x1, g1) \<Rightarrow>
     (case IntN (Dy (img_Rect img)) g1 of None \<Rightarrow> None | Some (y1, g2) \<Rightarrow>
     (case IntN (Dx (img_Rect img)) g2 of None \<Rightarrow> None | Some (x2, g3) \<Rightarrow>
     (case IntN (Dy (img_Rect img)) g3 of None \<Rightarrow> None | Some (y2, g4) \<Rightarrow>
     (case randomNearColor (foreground c) g4 of None \<Rightarrow> None | Some (lineColor, g5) \<Rightarrow>
     (case drawStraightLine_between img lineColor x1 y1 x2 y2 of
        None \<Rightarrow> None
      | Some img' \<Rightarrow> Some (img', g5)))))))"

text \<open>The sample of \<^verbatim>\<open>drawCurveLine\<close> at a step: six calls of \<^verbatim>\<open>lerp\<close>, each truncated to
  \<^verbatim>\<open>int\<close> before the next uses it.\<close>

definition curve_sample ::
  "int \<Rightarrow> int \<Rightarrow> int \<Rightarrow> int \<Rightarrow> int \<Rightarrow> int \<Rightarrow> int \<Rightarrow> int \<Rightarrow> point" where
  "curve_sample steps x1 y1 x2 y2 ctrlX ctrlY step =
     (let t = real_of_int step / real_of_int steps;
          x = float_to_int (lerp (real_of_int x1) (real_of_int x2) t);
          y = float_to_int (lerp (real_of_int y1) (real_of_int y2) t);
          ctrlXt = float_to_int (lerp (real_of_int x1) (real_of_int ctrlX) t);
          ctrlYt = float_to_int (lerp (real_of_int y1) (real_of_int ctrlY) t);
          finalX = float_to_int (lerp (real_of_int x) (real_of_int ctrlXt) t);
          finalY = float_to_int (lerp (real_of_int y) (real_of_int ctrlYt) t)
      in (finalX, finalY))"

definition drawCurveLine_step ::
  "RGBA \<Rightarrow> int \<Rightarrow> int \<Rightarrow> int \<Rightarrow> int \<Rightarrow> int \<Rightarrow> int \<Rightarrow> int \<Rightarrow> int \<Rightarrow> int \<Rightarrow> image \<Rightarrow> int \<Rightarrow> image" where
  "drawCurveLine_step lineColor w h steps x1 y1 x2 y2 ctrlX ctrlY img step =
     (case curve_sample steps x1 y1 x2 y2 ctrlX ctrlY step of
        (finalX, finalY) \<Rightarrow>
          if finalX \<ge> 0 \<and> finalX < w \<and> finalY \<ge> 0 \<and> finalY < h
          then img_Set img (finalX, finalY) lineColor else img)"

text \<open>\<^verbatim>\<open>drawCurveLine\<close> from \<^verbatim>\<open>steps := 120\<close> on, for given end points, control point and
  color.\<close>

definition drawCurveLine_between ::
  "image \<Rightarrow> RGBA \<Rightarrow> int \<Rightarrow> int \<Rightarrow> int \<Rightarrow> int \<Rightarrow> int \<Rightarrow> int \<Rightarrow> image" where
  "drawCurveLine_between img lineColor x1 y1 x2 y2 ctrlX ctrlY =
     (let w = Dx (img_Rect img); h = Dy (img_Rect img); steps = 120
      in foldl (drawCurveLine_step lineColor w h steps x1 y1 x2 y2 ctrlX ctrlY) img
           [0..steps - 1])"

definition drawCurveLine :: "Captcha \<Rightarrow> image \<Rightarrow> rand \<Rightarrow> (image \<times> rand) option" where
  "drawCurveLine c img g =
     (let w = Dx (img_Rect img); h = Dy (img_Rect img) in
      case IntN w g of None \<Rightarrow> None | Some (x1, g1) \<Rightarrow>
     (case IntN h g1 of None \<Rightarrow> None | Some (y1, g2) \<Rightarrow>
     (case IntN w g2 of None \<Rightarrow> None | Some (x2, g3) \<Rightarrow>
     (case IntN h g3 of None \<Rightarrow> None | Some (y2, g4) \<Rightarrow>
     (case IntN w g4 of None \<Rightarrow> None | Some (ctrlX, g5) \<Rightarrow>
     (case IntN h g5 of None \<Rightarrow> None | Some (ctrlY, g6) \<Rightarrow>
     (case randomNearColor (foreground c) g6 of None \<Rightarrow> None | Some (lineColor, g7) \<Rightarrow>
        Some (drawCurveLine_between img lineColor x1 y1 x2 y2 ctrlX ctrlY, g7))))))))"

text \<open>The value of \<^verbatim>\<open>lineCnt\<close> in \<^verbatim>\<open>drawLines\<close>, once the early return is passed: the number
  of iterations of the loop that draws one artifact each.\<close>

definition drawLines_lineCnt :: "Captcha \<Rightarrow> rand \<Rightarrow> (int \<times> rand) option" where
  "drawLines_lineCnt c g =
     (if minLines c = maxLines c then Some (minLines c, g)
      else
        (case IntN (maxLines c - minLines c) g of
           None \<Rightarrow> None
         | Some (r, g1) \<Rightarrow> Some (r + minLines c, g1)))"

fun drawLines_loop :: "nat \<Rightarrow> Captcha \<Rightarrow> image \<Rightarrow> rand \<Rightarrow> (image \<times> rand) option" where
  "drawLines_loop 0 c dst g = Some (dst, g)"
| "drawLines_loop (Suc n) c dst g =
     (case Float64 g of (f, g1) \<Rightarrow>
        (case (if f < 1 / 2 then drawStraightLine c dst g1 else drawCurveLine c dst g1) of
           None \<Rightarrow> None
         | Some (dst1, g2) \<Rightarrow> drawLines_loop n c dst1 g2))"

definition drawLines :: "lib \<Rightarrow> Captcha \<Rightarrow> image \<Rightarrow> rand \<Rightarrow> (image \<times> rand) option" where
  "drawLines l c src g =
     (if minLines c = maxLines c \<and> minLines c = 0 then Some (src, g)
      else
        (case drawLines_lineCnt c g of
           None \<Rightarrow> None
         | Some (lineCnt, g1) \<Rightarrow>
             (let dst = NewRGBA (img_Rect src);
                  dst = lib_Draw l dst (img_Rect dst) (Picture src) (0, 0) Src
              in drawLines_loop (nat lineCnt) c dst g1)))"

section \<open>\<^verbatim>\<open>Generate\<close>\<close>

text \<open>The first component is the receiver after the call, also when the call panics; the
  second is the returned image and code, with the random source left for later calls.\<close>

definition Generate ::
  "lib \<Rightarrow> Captcha \<Rightarrow> rand \<Rightarrow> Captcha \<times> (image \<times> string \<times> rand) option" where
  "Generate l c g =
     (case Captcha_randomString c g of
        None \<Rightarrow> (c, None)
      | Some (code, g1) \<Rightarrow>
          (let canvas = NewRGBA (Rect 0 0 (width c) (height c));
               canvas = lib_Draw l canvas (img_Rect canvas) (Uniform (background c)) (0, 0) Over
           in case drawString l c code g1 of
                None \<Rightarrow> (c, None)
              | Some (stringImg, g2) \<Rightarrow>
                  (let sx = (width c - Dx (img_Rect stringImg)) sdiv 2;
                       sy = (height c - Dy (img_Rect stringImg)) sdiv 2;
                       startRect = Rect sx sy (Dx (img_Rect canvas)) (Dy (img_Rect canvas));
                       canvas = lib_Draw l canvas startRect (Picture stringImg) (0, 0) Over
                   in case drawNoise l c canvas g2 of
                        (c1, None) \<Rightarrow> (c1, None)
                      | (c1, Some (canvas, g3)) \<Rightarrow>
                          (case drawLines l c1 canvas g3 of
                             None \<Rightarrow> (c1, None)
                           | Some (canvas, g4) \<Rightarrow> (c1, Some (canvas, code, g4))))))"

section \<open>Paths of pixels\<close>

text \<open>Two pixels are 8-neighbours when they differ, by at most one in each coordinate, and
  4-neighbours when they differ by one in exactly one coordinate. \<open>between a b v\<close>: the value
  \<open>v\<close> lies in the interval spanned by \<open>a\<close> and \<open>b\<close>.\<close>

definition neighbour8 :: "point \<Rightarrow> point \<Rightarrow> bool" where
  "neighbour8 p q = (\<bar>fst q - fst p\<bar> \<le> 1 \<and> \<bar>snd q - snd p\<bar> \<le> 1 \<and> p \<noteq> q)"

definition neighbour4 :: "point \<Rightarrow> point \<Rightarrow> bool" where
  "neighbour4 p q = (\<bar>fst q - fst p\<bar> + \<bar>snd q - snd p\<bar> = 1)"

definition between :: "int \<Rightarrow> int \<Rightarrow> int \<Rightarrow> bool" where
  "between a b v = (min a b \<le> v \<and> v \<le> max a b)"

section \<open>A font engine and a library for running the model\<close>

text \<open>A face with fixed metrics that draws nothing, and routines that leave their destination
  as it is: enough to run \<^verbatim>\<open>New\<close> and the pipeline on concrete configurations.\<close>

definition plain_face :: font_face where
  "plain_face =
     \<lparr>face_MeasureString = (\<lambda>s. 8 * int (length s)), face_Height = 12,
      face_Ascent = 9, face_Descent = 3, face_DrawString = (\<lambda>dst col dot s. dst)\<rparr>"

definition plain_lib :: lib where
  "plain_lib =
     \<lparr>lib_Draw = (\<lambda>dst r src sp op. dst), lib_Scale = (\<lambda>dst dr src sr op. dst),
      lib_Transform = (\<lambda>dst m src sr op. dst),
      lib_loadFace = (\<lambda>path sz. if path = ''missing.ttf''
                        then Inl ''open missing.ttf: no such file or directory''
                        else Inr plain_face),
      lib_runes = map (\<lambda>ch. [ch])\<rparr>"

text \<open>A random source that returns the same raw value at every call, and a canvas one
  pixel wide and three high whose pixels \<open>(0, 1)\<close> and \<open>(0, 2)\<close> are opaque red and opaque
  blue.\<close>

definition fixed_rand :: "nat \<Rightarrow> rand" where
  "fixed_rand k = (\<lambda>i. k)"


section \<open>Properties of the helpers\<close>

lemma rand_next_fixed: "rand_next (fixed_rand k) = fixed_rand k"
  by (simp add: rand_next_def fixed_rand_def)

lemma clamp_full_range: "clamp v 0 255 = v"
proof -
  have "v \<le> 255"
    using unsigned_less [of v, where ?'a = nat] by (simp add: word_le_nat_alt)
  then have "\<not> 255 < v" by (simp add: not_less)
  then show ?thesis by (simp add: clamp_def)
qed

text \<open>
  C4 (code at the failing input). With the default foreground, opaque black, and draws that
  give the offset \<open>-1\<close> on every channel, the channels are not held at \<open>0\<close>: the 8-bit sum
  wraps to \<open>255\<close> before \<open>clamp\<close> is applied, and the line color is white.
\<close>

theorem randomNearColor_wraps:
  "randomNearColor \<lparr>rgba_R = 0, rgba_G = 0, rgba_B = 0, rgba_A = 255\<rparr> (fixed_rand 24)
     = Some (\<lparr>rgba_R = 255, rgba_G = 255, rgba_B = 255, rgba_A = 255\<rparr>, fixed_rand 24)"
proof -
  have draw: "IntN 50 (fixed_rand 24) = Some (24, fixed_rand 24)"
    by (simp add: IntN_def rand_next_fixed) (simp add: fixed_rand_def)
  show ?thesis
    by (simp add: randomNearColor_def color_RGBA_def widen_def draw clamp_full_range)
qed


section \<open>The code string\<close>








section \<open>Validation in \<^verbatim>\<open>New\<close>\<close>




section \<open>Neutral transform ranges\<close>

text \<open>
  C8. With rotation \<open>[0, 0]\<close>, scale \<open>[1, 1]\<close> and distortion \<open>[0, 0]\<close>, each of
  \<^verbatim>\<open>scaleChar\<close>, \<^verbatim>\<open>distortChar\<close> and \<^verbatim>\<open>rotateChar\<close> returns the canvas it was given,
  whatever the resampling routines of the library are, and draws nothing from the random
  source.
\<close>

theorem transforms_identity:
  assumes "minRotation c = 0" "maxRotation c = 0" "minScale c = 1" "maxScale c = 1"
    "minDistortion c = 0" "maxDistortion c = 0"
  shows "scaleChar l c src g = (src, g) \<and> distortChar c src g = (src, g)
       \<and> rotateChar l c src g = (src, g)"
  using assms by (simp add: scaleChar_def distortChar_def rotateChar_def)

theorem transforms_identity_witness:
  "minRotation New_defaults = 0 \<and> maxRotation New_defaults = 0
   \<and> minScale New_defaults = 1 \<and> maxScale New_defaults = 1
   \<and> minDistortion New_defaults = 0 \<and> maxDistortion New_defaults = 0
   \<and> scaleChar plain_lib New_defaults (NewRGBA (Rect 0 0 8 12)) (\<lambda>i. i)
        = (NewRGBA (Rect 0 0 8 12), (\<lambda>i. i))
   \<and> distortChar New_defaults (NewRGBA (Rect 0 0 8 12)) (\<lambda>i. i)
        = (NewRGBA (Rect 0 0 8 12), (\<lambda>i. i))
   \<and> rotateChar plain_lib New_defaults (NewRGBA (Rect 0 0 8 12)) (\<lambda>i. i)
        = (NewRGBA (Rect 0 0 8 12), (\<lambda>i. i))"
proof -
  have h: "minRotation New_defaults = 0" "maxRotation New_defaults = 0"
    "minScale New_defaults = 1" "maxScale New_defaults = 1"
    "minDistortion New_defaults = 0" "maxDistortion New_defaults = 0"
    by (simp_all add: New_defaults_def)
  show ?thesis
    using h transforms_identity [OF h, of plain_lib "NewRGBA (Rect 0 0 8 12)" "\<lambda>i. i"]
    by simp
qed

section \<open>The number of line artifacts\<close>

lemma drawLines_lineCnt_range:
  assumes "minLines c < maxLines c"
  shows "\<exists>n g1. drawLines_lineCnt c g = Some (n, g1) \<and> minLines c \<le> n \<and> n < maxLines c"
proof -
  define r where "r = int (g 0) mod (maxLines c - minLines c)"
  have r: "r < maxLines c - minLines c" "0 \<le> r"
    using assms by (simp_all add: r_def)
  have "drawLines_lineCnt c g = Some (r + minLines c, rand_next g)"
    using assms by (simp add: drawLines_lineCnt_def IntN_def r_def)
  moreover have "minLines c \<le> r + minLines c" "r + minLines c < maxLines c"
    using r by simp_all
  ultimately show ?thesis by blast
qed

lemma drawLines_lineCnt_fixed:
  "minLines c = maxLines c \<Longrightarrow> drawLines_lineCnt c g = Some (minLines c, g)"
  by (simp add: drawLines_lineCnt_def)

lemma drawLines_none: "minLines c = 0 \<Longrightarrow> maxLines c = 0 \<Longrightarrow> drawLines l c src g = Some (src, g)"
  by (simp add: drawLines_def)

text \<open>
  C2 (code at the failing input). With the default range \<open>[3, 7]\<close> the count is \<open>3\<close> plus the
  value of \<^verbatim>\<open>rand.IntN(4)\<close>: one of 3, 4, 5, 6 and never \<open>maxLines = 7\<close>, for every random
  source.
\<close>

theorem drawLines_lineCnt_default:
  "drawLines_lineCnt New_defaults g = Some (int (g 0) mod 4 + 3, rand_next g)
   \<and> int (g 0) mod 4 + 3 < maxLines New_defaults"
  by (simp add: drawLines_lineCnt_def New_defaults_def IntN_def)

section \<open>Bounding box\<close>

lemma upto_0_2: "[0..(2::int)] = [0, 1, 2]"
  by (simp add: upto_rec1)

text \<open>
  C3 (code at the failing inputs). On a 3 by 3 canvas whose only pixel with non-zero alpha is
  the centre \<open>(1, 1)\<close>, \<^verbatim>\<open>pixelBounds\<close> returns the rectangle from \<open>(1, 1)\<close> to \<open>(1, 1)\<close>:
  it has no area and does not contain the pixel, because a rectangle excludes its maximum
  corner and the code stores the largest coordinate seen, not the one after it. On the fully
  transparent 3 by 3 canvas the four running values stay at \<open>(3, 3, 0, 0)\<close>, which
  \<^verbatim>\<open>image.Rect\<close> reorders into the whole canvas, a rectangle of area 9.
\<close>

theorem pixelBounds_single_pixel:
  "pixelBounds (img_Set (NewRGBA (Rect 0 0 3 3)) (1, 1)
       \<lparr>rgba_R = 0, rgba_G = 0, rgba_B = 0, rgba_A = 255\<rparr>) = Rect 1 1 1 1
   \<and> \<not> point_In (1, 1) (Rect 1 1 1 1)
   \<and> Dx (Rect 1 1 1 1) = 0 \<and> Dy (Rect 1 1 1 1) = 0
   \<and> pixelBounds (NewRGBA (Rect 0 0 3 3)) = Rect 0 0 3 3
   \<and> Dx (Rect 0 0 3 3) = 3 \<and> Dy (Rect 0 0 3 3) = 3"
  by (simp add: pixelBounds_def pixelBounds_pixel_def img_Set_def NewRGBA_def Rect_def
      RGBAAt_def point_In_def transparent_def Dx_def Dy_def upto_0_2)


section \<open>The receiver of \<^verbatim>\<open>Generate\<close>\<close>

lemma drawNoise_frame: "noiseLevel c \<le> 1 \<Longrightarrow> fst (drawNoise l c src g) = c"
  by (simp add: drawNoise_def Let_def)

lemma drawNoise_writes: "1 < noiseLevel c \<Longrightarrow> fst (drawNoise l c src g) = c\<lparr>noiseLevel := 1\<rparr>"
  by (simp add: drawNoise_def Let_def)

lemma drawNoise_frame_pair:
  "noiseLevel c \<le> 1 \<Longrightarrow> drawNoise l c src g = (c1, r) \<Longrightarrow> c1 = c"
  using drawNoise_frame [of c l src g] by simp

lemma Generate_keeps_receiver:
  assumes "noiseLevel c \<le> 1"
  shows "fst (Generate l c g) = c"
  by (auto simp: Generate_def Let_def split: option.splits prod.splits
      dest: drawNoise_frame_pair [OF assms])

lemma Generate_writes:
  assumes "1 < noiseLevel c" "Generate l c g = (c1, Some r)"
  shows "c1 = c\<lparr>noiseLevel := 1\<rparr>"
  using assms drawNoise_writes [OF assms(1), of l]
  by (auto simp: Generate_def Let_def split: option.splits prod.splits) (metis fst_conv)+

lemma New_Inr_noiseLevel:
  assumes "New l opts = Inr c"
  shows "0 \<le> noiseLevel c \<and> noiseLevel c \<le> 1"
proof -
  from assms obtain face where v: "validate (apply_Options opts) = None"
    and c: "c = (apply_Options opts)\<lparr>fontFace := Some face\<rparr>"
    by (auto simp: New_def Let_def split: option.splits sum.splits)
  from v have "0 \<le> noiseLevel (apply_Options opts) \<and> noiseLevel (apply_Options opts) \<le> 1"
    by (auto simp: validate_def split: if_splits)
  with c show ?thesis by simp
qed

text \<open>
  C10. For a \<^verbatim>\<open>Captcha\<close> returned by \<^verbatim>\<open>New\<close>, the receiver after a call of \<^verbatim>\<open>Generate\<close>
  (whether the call returns or panics) equals the receiver before it in every field: the
  one assignment of the pipeline, \<^verbatim>\<open>c.noiseLevel = 1\<close> in \<^verbatim>\<open>drawNoise\<close>, is guarded by
  \<^verbatim>\<open>c.noiseLevel > 1\<close>, which validation excludes.
\<close>

theorem Generate_frame:
  assumes "New l opts = Inr c"
  shows "fst (Generate l c g) = c"
  using Generate_keeps_receiver New_Inr_noiseLevel [OF assms] by simp

lemma New_plain_font:
  "New plain_lib [WithFont ''font.ttf'' 40]
     = Inr ((apply_Options [WithFont ''font.ttf'' 40])\<lparr>fontFace := Some plain_face\<rparr>)"
  by (simp add: New_def validate_def apply_Options_def New_defaults_def
      AlphaNumericWithoutConfusion_def plain_lib_def)

theorem Generate_frame_witness:
  "New plain_lib [WithFont ''font.ttf'' 40]
     = Inr ((apply_Options [WithFont ''font.ttf'' 40])\<lparr>fontFace := Some plain_face\<rparr>)
   \<and> fst (Generate plain_lib
            ((apply_Options [WithFont ''font.ttf'' 40])\<lparr>fontFace := Some plain_face\<rparr>) (\<lambda>i. i))
       = (apply_Options [WithFont ''font.ttf'' 40])\<lparr>fontFace := Some plain_face\<rparr>"
  using New_plain_font Generate_frame [OF New_plain_font, of "\<lambda>i. i"] by simp



section \<open>Loops that set pixels\<close>

text \<open>What a loop of guarded calls of \<^verbatim>\<open>Set\<close> leaves in the image: the bounds are kept, and a
  pixel holds the value of the iteration that set it, or its old value.\<close>

lemma img_Rect_img_Set [simp]: "img_Rect (img_Set im p c) = img_Rect im"
  by (simp add: img_Set_def)

lemma img_pix_img_Set:
  "img_pix (img_Set im p c) q = (if q = p \<and> point_In p (img_Rect im) then c else img_pix im q)"
  by (simp add: img_Set_def)


lemma foldl_Set_const_pix:
  "img_pix (foldl (\<lambda>im k. if ok k then img_Set im (pt k) col else im) img ks) p =
     (if (\<exists>k\<in>set ks. ok k \<and> pt k = p) \<and> point_In p (img_Rect img) then col else img_pix img p)"
proof (induction ks arbitrary: img)
  case Nil
  show ?case by simp
next
  case (Cons k ks)
  show ?case by (simp add: Cons.IH img_pix_img_Set) blast
qed




section \<open>Sinusoidal distortion\<close>











section \<open>Curved line artifacts\<close>








text \<open>The sample is not the point of the quadratic curve in closed form: with the first end
  point and the control point at \<open>0\<close> and the second end point at \<open>100\<close>, the last step gives
  \<open>0\<close>, where \<open>(1 - t)\<^sup>2 * 0 + 2 * (1 - t) * t * 0 + t\<^sup>2 * 100\<close> is above \<open>98\<close>.\<close>

lemma curve_sample_not_closed_form:
  "curve_sample 120 0 0 100 100 0 0 119 = (0, 0)
   \<and> (98::real) < (119 / 120)\<^sup>2 * 100"
  by (simp add: curve_sample_def lerp_def float_to_int_def power2_eq_square)


section \<open>Straight line artifacts\<close>

text \<open>The invariant of the loop, in terms of the steps that remain: \<open>rx\<close> along \<open>x\<close> and
  \<open>ry\<close> along \<open>y\<close>, with \<open>err = dx - dy + rx * dy - ry * dx\<close>. A step along an axis is taken
  only while steps remain on it, and every iteration that does not stop takes a step, so the
  loop stops after at most \<open>rx + ry\<close> further iterations.\<close>

lemma loop_path:
  fixes dx dy sx sy x2 y2 :: int
  assumes s: "sx = 1 \<or> sx = - 1" "sy = 1 \<or> sy = - 1"
  shows "0 \<le> rx \<Longrightarrow> rx \<le> dx \<Longrightarrow> 0 \<le> ry \<Longrightarrow> ry \<le> dy \<Longrightarrow>
     x2 = x1 + sx * rx \<Longrightarrow> y2 = y1 + sy * ry \<Longrightarrow>
     err = dx - dy + rx * dy - ry * dx \<Longrightarrow>
     \<exists>path. drawStraightLine_loop img col x2 y2 dx dy sx sy x1 y1 err
               = Some (foldl (\<lambda>im p. img_Set im p col) img path)
       \<and> path \<noteq> [] \<and> hd path = (x1, y1) \<and> last path = (x2, y2)
       \<and> distinct path \<and> successively neighbour8 path
       \<and> (\<forall>p\<in>set path. between x1 x2 (fst p) \<and> between y1 y2 (snd p))"
proof (induction "nat (rx + ry)" arbitrary: rx ry x1 y1 err img rule: less_induct)
  case less
  note inv = less.prems
  show ?case
  proof (cases "x1 = x2 \<and> y1 = y2")
    case True
    then have "drawStraightLine_loop img col x2 y2 dx dy sx sy x1 y1 err
                 = Some (foldl (\<lambda>im p. img_Set im p col) img [(x1, y1)])"
      by (subst drawStraightLine_loop.simps) simp
    then show ?thesis using True by (intro exI [of _ "[(x1, y1)]"]) (simp add: between_def)
  next
    case False
    with inv s have pos: "0 < rx \<or> 0 < ry" by auto
    define stepX where "stepX = (2 * err > - dy)"
    define stepY where "stepY = (2 * err < dx)"
    have X: "0 < rx" if stepX
    proof (rule ccontr)
      assume "\<not> 0 < rx"
      with inv pos have rx0: "rx = 0" and ry1: "1 \<le> ry" by auto
      have "dx * 1 \<le> dx * ry" using ry1 inv by (intro mult_left_mono) auto
      with inv rx0 ry1 have "2 * err \<le> - dy" by (simp add: algebra_simps)
      with that show False by (simp add: stepX_def)
    qed
    have Y: "0 < ry" if stepY
    proof (rule ccontr)
      assume "\<not> 0 < ry"
      with inv pos have ry0: "ry = 0" and rx1: "1 \<le> rx" by auto
      have "dy * 1 \<le> dy * rx" using rx1 inv by (intro mult_left_mono) auto
      with inv ry0 rx1 have "dx \<le> 2 * err" by (simp add: algebra_simps)
      with that show False by (simp add: stepY_def)
    qed
    have XY: "stepX \<or> stepY"
    proof (rule ccontr)
      assume "\<not> (stepX \<or> stepY)"
      then have "2 * err \<le> - dy" "dx \<le> 2 * err" by (simp_all add: stepX_def stepY_def)
      with inv pos show False by auto
    qed
    define rx' where "rx' = (if stepX then rx - 1 else rx)"
    define ry' where "ry' = (if stepY then ry - 1 else ry)"
    define x1' where "x1' = (if stepX then x1 + sx else x1)"
    define y1' where "y1' = (if stepY then y1 + sy else y1)"
    define err' where "err' = (if stepX then err - dy else err) + (if stepY then dx else 0)"
    define img' where "img' = img_Set img (x1, y1) col"
    have unfold: "drawStraightLine_loop img col x2 y2 dx dy sx sy x1 y1 err
                    = drawStraightLine_loop img' col x2 y2 dx dy sx sy x1' y1' err'"
      unfolding stepX_def stepY_def x1'_def y1'_def err'_def img'_def
      by (subst drawStraightLine_loop.simps) (simp only: False if_False Let_def)
    have less': "nat (rx' + ry') < nat (rx + ry)"
      using X Y XY inv by (auto simp: rx'_def ry'_def)
    have i1: "0 \<le> rx'" "rx' \<le> dx" "0 \<le> ry'" "ry' \<le> dy"
      using X Y inv by (auto simp: rx'_def ry'_def)
    have i2: "x2 = x1' + sx * rx'" "y2 = y1' + sy * ry'"
      using inv by (auto simp: rx'_def ry'_def x1'_def y1'_def algebra_simps)
    have i3: "err' = dx - dy + rx' * dy - ry' * dx"
      using inv by (auto simp: rx'_def ry'_def err'_def algebra_simps)
    from less.hyps [OF less' i1 i2 i3, of img']
    obtain path where p: "drawStraightLine_loop img' col x2 y2 dx dy sx sy x1' y1' err'
               = Some (foldl (\<lambda>im p. img_Set im p col) img' path)"
      "path \<noteq> []" "hd path = (x1', y1')" "last path = (x2, y2)"
      "distinct path" "successively neighbour8 path"
      "\<forall>p\<in>set path. between x1' x2 (fst p) \<and> between y1' y2 (snd p)"
      by blast
    have moved: "x1' \<noteq> x1 \<or> y1' \<noteq> y1"
      using XY s by (auto simp: x1'_def y1'_def)
    have near: "neighbour8 (x1, y1) (x1', y1')"
      using moved s by (auto simp: neighbour8_def x1'_def y1'_def split: if_splits)
    have xdir: "between x1' x2 v \<Longrightarrow> between x1 x2 v \<and> (stepX \<longrightarrow> v \<noteq> x1)" for v
    proof (cases stepX)
      case True
      with X have "1 \<le> rx" by simp
      moreover from True have "x1' = x1 + sx" by (simp add: x1'_def)
      moreover assume "between x1' x2 v"
      moreover note s(1) inv(5)
      ultimately show ?thesis
        by (elim disjE) (simp_all add: between_def min_def max_def split: if_splits)
    next
      case False
      then have "x1' = x1" by (simp add: x1'_def)
      moreover assume "between x1' x2 v"
      ultimately show ?thesis using False by simp
    qed
    have ydir: "between y1' y2 v \<Longrightarrow> between y1 y2 v \<and> (stepY \<longrightarrow> v \<noteq> y1)" for v
    proof (cases stepY)
      case True
      with Y have "1 \<le> ry" by simp
      moreover from True have "y1' = y1 + sy" by (simp add: y1'_def)
      moreover assume "between y1' y2 v"
      moreover note s(2) inv(6)
      ultimately show ?thesis
        by (elim disjE) (simp_all add: between_def min_def max_def split: if_splits)
    next
      case False
      then have "y1' = y1" by (simp add: y1'_def)
      moreover assume "between y1' y2 v"
      ultimately show ?thesis using False by simp
    qed
    have fresh: "(x1, y1) \<notin> set path"
    proof
      assume "(x1, y1) \<in> set path"
      with p(7) have b: "between x1' x2 x1" "between y1' y2 y1" by auto
      from XY xdir [OF b(1)] ydir [OF b(2)] show False by blast
    qed
    have box: "between x1 x2 (fst q) \<and> between y1 y2 (snd q)" if "q \<in> set path" for q
    proof -
      from p(7) that have b: "between x1' x2 (fst q)" "between y1' y2 (snd q)" by auto
      from xdir [OF b(1)] ydir [OF b(2)] show ?thesis by simp
    qed
    let ?path = "(x1, y1) # path"
    have "drawStraightLine_loop img col x2 y2 dx dy sx sy x1 y1 err
               = Some (foldl (\<lambda>im p. img_Set im p col) img ?path)"
      using unfold p(1) by (simp add: img'_def)
    moreover have "hd ?path = (x1, y1)" "last ?path = (x2, y2)" "?path \<noteq> []"
      using p(2,4) by simp_all
    moreover have "distinct ?path" using fresh p(5) by simp
    moreover have "successively neighbour8 ?path"
      using near p(2,3,6) by (simp add: successively_Cons)
    moreover have "\<forall>q\<in>set ?path. between x1 x2 (fst q) \<and> between y1 y2 (snd q)"
      using box by (auto simp: between_def)
    ultimately show ?thesis by blast
  qed
qed


lemma foldl_Set_path_pix:
  "img_pix (foldl (\<lambda>im p. img_Set im p col) img ps) q =
     (if q \<in> set ps \<and> point_In q (img_Rect img) then col else img_pix img q)"
  using foldl_Set_const_pix [where ok = "\<lambda>p. True" and pt = "\<lambda>p. p" and col = col and img = img
      and ks = ps and p = q]
  by auto

lemma between_In:
  assumes "point_In (x1, y1) r" "point_In (x2, y2) r"
    and "between x1 x2 (fst p)" "between y1 y2 (snd p)"
  shows "point_In p r"
  using assms by (auto simp: point_In_def between_def min_def max_def split: if_splits)

lemma drawStraightLine_diagonal:
  "drawStraightLine_between img col 0 0 1 1 = Some (img_Set (img_Set img (0, 0) col) (1, 1) col)"
  by (simp add: drawStraightLine_between_def abs_int_def Let_def drawStraightLine_loop.simps)

lemma drawStraightLine_shallow:
  "drawStraightLine_between img col 0 0 2 1
     = Some (img_Set (img_Set (img_Set img (0, 0) col) (1, 0) col) (2, 1) col)"
  by (simp add: drawStraightLine_between_def abs_int_def Let_def drawStraightLine_loop.simps)

text \<open>
  C5 (counterexample). From \<open>(0, 0)\<close> to \<open>(1, 1)\<close> on a 2 by 2 canvas the loop sets the two
  end points and nothing else: the second is not a 4-neighbour of the first, and the pixels
  \<open>(1, 0)\<close> and \<open>(0, 1)\<close>, one of which a 4-connected path would need, stay transparent.
\<close>

theorem drawStraightLine_diagonal_counterexample:
  "drawStraightLine_between (NewRGBA (Rect 0 0 2 2))
       \<lparr>rgba_R = 9, rgba_G = 9, rgba_B = 9, rgba_A = 255\<rparr> 0 0 1 1
     = Some (img_Set (img_Set (NewRGBA (Rect 0 0 2 2)) (0, 0)
                        \<lparr>rgba_R = 9, rgba_G = 9, rgba_B = 9, rgba_A = 255\<rparr>) (1, 1)
               \<lparr>rgba_R = 9, rgba_G = 9, rgba_B = 9, rgba_A = 255\<rparr>)
   \<and> \<not> neighbour4 (0, 0) (1, 1)
   \<and> RGBAAt (img_Set (img_Set (NewRGBA (Rect 0 0 2 2)) (0, 0)
                        \<lparr>rgba_R = 9, rgba_G = 9, rgba_B = 9, rgba_A = 255\<rparr>) (1, 1)
               \<lparr>rgba_R = 9, rgba_G = 9, rgba_B = 9, rgba_A = 255\<rparr>) (1, 0) = transparent
   \<and> RGBAAt (img_Set (img_Set (NewRGBA (Rect 0 0 2 2)) (0, 0)
                        \<lparr>rgba_R = 9, rgba_G = 9, rgba_B = 9, rgba_A = 255\<rparr>) (1, 1)
               \<lparr>rgba_R = 9, rgba_G = 9, rgba_B = 9, rgba_A = 255\<rparr>) (0, 1) = transparent"
  by (simp add: drawStraightLine_diagonal neighbour4_def RGBAAt_def img_Set_def NewRGBA_def
      Rect_def point_In_def)

text \<open>
  C5 (amended). For every two end points the loop of \<^verbatim>\<open>drawStraightLine\<close> terminates, and
  the calls of \<^verbatim>\<open>Set\<close> it makes are, in order, the pixels of a path that starts at the first
  end point and ends at the second, visits no pixel twice, and moves at every step to an
  8-neighbour (at most one unit in each axis, diagonal steps included). The path stays in the
  box spanned by the end points, so with both end points on the canvas the pixels of the
  path, and no others, get the line color.
\<close>

theorem drawStraightLine_path:
  "\<exists>path. drawStraightLine_between img col x1 y1 x2 y2
             = Some (foldl (\<lambda>im p. img_Set im p col) img path)
     \<and> path \<noteq> [] \<and> hd path = (x1, y1) \<and> last path = (x2, y2)
     \<and> distinct path \<and> successively neighbour8 path
     \<and> (\<forall>p\<in>set path. between x1 x2 (fst p) \<and> between y1 y2 (snd p))
     \<and> (point_In (x1, y1) (img_Rect img) \<and> point_In (x2, y2) (img_Rect img) \<longrightarrow>
          (\<forall>q. img_pix (foldl (\<lambda>im p. img_Set im p col) img path) q
                 = (if q \<in> set path then col else img_pix img q)))"
proof -
  define dx where "dx = abs_int (x2 - x1)"
  define dy where "dy = abs_int (y2 - y1)"
  define sx :: int where "sx = (if x1 < x2 then 1 else - 1)"
  define sy :: int where "sy = (if y1 < y2 then 1 else - 1)"
  have s: "sx = 1 \<or> sx = - 1" "sy = 1 \<or> sy = - 1" by (simp_all add: sx_def sy_def)
  have d: "0 \<le> dx" "0 \<le> dy" by (simp_all add: dx_def dy_def abs_int_def)
  have t: "x2 = x1 + sx * dx" "y2 = y1 + sy * dy"
    by (simp_all add: sx_def sy_def dx_def dy_def abs_int_def)
  have e: "dx - dy = dx - dy + dx * dy - dy * dx" by simp
  from loop_path [OF s d(1) order_refl d(2) order_refl t e, of img col]
  obtain path where p:
    "drawStraightLine_loop img col x2 y2 dx dy sx sy x1 y1 (dx - dy)
       = Some (foldl (\<lambda>im p. img_Set im p col) img path)"
    "path \<noteq> []" "hd path = (x1, y1)" "last path = (x2, y2)"
    "distinct path" "successively neighbour8 path"
    "\<forall>p\<in>set path. between x1 x2 (fst p) \<and> between y1 y2 (snd p)"
    by blast
  have run: "drawStraightLine_between img col x1 y1 x2 y2
               = Some (foldl (\<lambda>im p. img_Set im p col) img path)"
    using p(1) by (simp add: drawStraightLine_between_def Let_def dx_def dy_def sx_def sy_def)
  have pix: "\<forall>q. img_pix (foldl (\<lambda>im p. img_Set im p col) img path) q
                 = (if q \<in> set path then col else img_pix img q)"
    if "point_In (x1, y1) (img_Rect img)" "point_In (x2, y2) (img_Rect img)"
  proof
    fix q
    have "q \<in> set path \<Longrightarrow> point_In q (img_Rect img)"
      using p(7) between_In [OF that] by blast
    then show "img_pix (foldl (\<lambda>im p. img_Set im p col) img path) q
                 = (if q \<in> set path then col else img_pix img q)"
      by (auto simp: foldl_Set_path_pix)
  qed
  show ?thesis using run p(2-7) pix by blast
qed

theorem drawStraightLine_path_witness:
  "point_In (0, 0) (img_Rect (NewRGBA (Rect 0 0 3 2)))
   \<and> point_In (2, 1) (img_Rect (NewRGBA (Rect 0 0 3 2)))
   \<and> (\<exists>path. drawStraightLine_between (NewRGBA (Rect 0 0 3 2))
                  \<lparr>rgba_R = 9, rgba_G = 9, rgba_B = 9, rgba_A = 255\<rparr> 0 0 2 1
               = Some (foldl (\<lambda>im p. img_Set im p
                                \<lparr>rgba_R = 9, rgba_G = 9, rgba_B = 9, rgba_A = 255\<rparr>)
                         (NewRGBA (Rect 0 0 3 2)) path)
         \<and> hd path = (0, 0) \<and> last path = (2, 1) \<and> distinct path
         \<and> successively neighbour8 path
         \<and> (\<forall>q. img_pix (foldl (\<lambda>im p. img_Set im p
                                \<lparr>rgba_R = 9, rgba_G = 9, rgba_B = 9, rgba_A = 255\<rparr>)
                         (NewRGBA (Rect 0 0 3 2)) path) q
                 = (if q \<in> set path then \<lparr>rgba_R = 9, rgba_G = 9, rgba_B = 9, rgba_A = 255\<rparr>
                    else transparent)))
   \<and> drawStraightLine_between (NewRGBA (Rect 0 0 3 2))
        \<lparr>rgba_R = 9, rgba_G = 9, rgba_B = 9, rgba_A = 255\<rparr> 0 0 2 1
       = Some (img_Set (img_Set (img_Set (NewRGBA (Rect 0 0 3 2)) (0, 0)
                \<lparr>rgba_R = 9, rgba_G = 9, rgba_B = 9, rgba_A = 255\<rparr>) (1, 0)
                \<lparr>rgba_R = 9, rgba_G = 9, rgba_B = 9, rgba_A = 255\<rparr>) (2, 1)
                \<lparr>rgba_R = 9, rgba_G = 9, rgba_B = 9, rgba_A = 255\<rparr>)"
proof -
  let ?img = "NewRGBA (Rect 0 0 3 2)"
  let ?col = "\<lparr>rgba_R = 9, rgba_G = 9, rgba_B = 9, rgba_A = 255\<rparr>"
  have a: "point_In (0, 0) (img_Rect ?img)" and b: "point_In (2, 1) (img_Rect ?img)"
    by (simp_all add: NewRGBA_def Rect_def point_In_def)
  have old: "img_pix ?img q = transparent" for q by (simp add: NewRGBA_def)
  from drawStraightLine_path [of ?img ?col 0 0 2 1] a b
  have "\<exists>path. drawStraightLine_between ?img ?col 0 0 2 1
               = Some (foldl (\<lambda>im p. img_Set im p ?col) ?img path)
         \<and> hd path = (0, 0) \<and> last path = (2, 1) \<and> distinct path
         \<and> successively neighbour8 path
         \<and> (\<forall>q. img_pix (foldl (\<lambda>im p. img_Set im p ?col) ?img path) q
                 = (if q \<in> set path then ?col else transparent))"
    unfolding old by blast
  then show ?thesis using a b drawStraightLine_shallow [of ?img ?col] by blast
qed


end
